theory Spec2Isabelle
  imports Main "HOL-Library.Sublist"
begin

section \<open>Strings of the Go standard library\<close>

text \<open>
  A Go \<^verbatim>\<open>string\<close> and a \<^verbatim>\<open>[]byte\<close> are sequences of bytes; both are modelled
  as \<^typ>\<open>string\<close> (a list of 8-bit characters). \<^verbatim>\<open>len\<close> is \<^const>\<open>length\<close>,
  the slice \<^verbatim>\<open>s[:n]\<close> is \<^term>\<open>take n s\<close> and \<^verbatim>\<open>s[n:]\<close> is \<^term>\<open>drop n s\<close>.
\<close>

type_synonym bytes = string

text \<open>
  \<^verbatim>\<open>strings.HasPrefix(s, prefix)\<close> is
  \<^verbatim>\<open>len(s) >= len(prefix) && s[0:len(prefix)] == prefix\<close>.
\<close>

definition HasPrefix :: "string \<Rightarrow> string \<Rightarrow> bool" where
  "HasPrefix s pre = (length s \<ge> length pre \<and> take (length pre) s = pre)"

text \<open>
  \<^verbatim>\<open>strings.HasSuffix(s, suffix)\<close> is
  \<^verbatim>\<open>len(s) >= len(suffix) && s[len(s)-len(suffix):] == suffix\<close>.
\<close>

definition HasSuffix :: "string \<Rightarrow> string \<Rightarrow> bool" where
  "HasSuffix s suf = (length s \<ge> length suf \<and> drop (length s - length suf) s = suf)"

text \<open>
  \<^verbatim>\<open>strings.Index(s, sep)\<close>: the index of the first occurrence of \<open>sep\<close> in \<open>s\<close>;
  Go's \<open>-1\<close> is \<^const>\<open>None\<close>.
\<close>

fun Index :: "string \<Rightarrow> string \<Rightarrow> nat option" where
  "Index [] sep = (if sep = [] then Some 0 else None)"
| "Index (c # s) sep =
     (if HasPrefix (c # s) sep then Some 0 else map_option Suc (Index s sep))"

text \<open>
  The loop of \<^verbatim>\<open>strings.genSplit\<close>, with \<open>k\<close> the number of cuts still allowed
  (\<^verbatim>\<open>n - 1 - i\<close>):
  \<^verbatim>\<open>
  for i < n {
      m := Index(s, sep)
      if m < 0 { break }
      a[i] = s[:m]
      s = s[m+len(sep):]
      i++
  }
  a[i] = s
  return a[:i+1]
  \<close>
\<close>

fun genSplit_loop :: "string \<Rightarrow> string \<Rightarrow> nat \<Rightarrow> string list" where
  "genSplit_loop s sep 0 = [s]"
| "genSplit_loop s sep (Suc k) =
     (case Index s sep of
        None \<Rightarrow> [s]
      | Some m \<Rightarrow> take m s # genSplit_loop (drop (m + length sep) s) sep k)"

text \<open>
  \<^verbatim>\<open>strings.SplitN(s, sep, n)\<close> for a non-empty separator and \<open>n \<ge> 0\<close>: at most
  \<open>n\<close> substrings, the last one the unsplit remainder; \<open>n = 0\<close> gives \<^verbatim>\<open>nil\<close>.
  The only call in the repository is \<^verbatim>\<open>strings.SplitN(username, "@", 2)\<close>; the
  library's cases \<open>n < 0\<close> and \<open>sep = ""\<close> are not reached from it and not modelled.
\<close>

definition SplitN :: "string \<Rightarrow> string \<Rightarrow> nat \<Rightarrow> string list" where
  "SplitN s sep n = (if n = 0 then [] else genSplit_loop s sep (n - 1))"

section \<open>Errors\<close>

text \<open>
  Every error of the file is built by \<^verbatim>\<open>fmt.Errorf\<close>; an error wrapped with
  \<^verbatim>\<open>%w\<close> stays reachable as the cause. One constructor stands for each call of
  \<^verbatim>\<open>fmt.Errorf\<close> in the source and carries its arguments; \<open>External\<close> is an
  error value handed over by the SDK or the operating system. \<open>Error\<close> below gives
  the message text of each.
\<close>

datatype error =
    External string
  | URLSchemeError
  | InvalidURL string error
  | UsernameAtSignError
  | UsernameNoUser
  | UsernameNoScope
  | InvalidUsername string error
  | MissingTrustConfiguration
  | ConnectionBuildError error
  | InlineCertNotPEM
  | CAFileReadError string error
  | CAFileNotPEM string
  | CertificateError error
  | RemoveFailed string error
  | Timeout string "error option"

text \<open>
  The \<^verbatim>\<open>Error()\<close> text. \<^verbatim>\<open>lastError\<close> of \<^verbatim>\<open>RemoveDisk\<close> is a variable that
  starts as \<^verbatim>\<open>nil\<close>, so the cause of \<open>Timeout\<close> is optional; \<^verbatim>\<open>%w\<close> prints a
  \<^verbatim>\<open>nil\<close> error as \<^verbatim>\<open>%!w(<nil>)\<close>.
\<close>

fun Error :: "error \<Rightarrow> string" where
  "Error (External msg) = msg"
| "Error URLSchemeError = ''URL must start with http:// or https://''"
| "Error (InvalidURL url err) = ''invalid URL: '' @ url @ '' ('' @ Error err @ '')''"
| "Error UsernameAtSignError =
     ''username must contain exactly one @ sign (format should be admin@internal)''"
| "Error UsernameNoUser =
     ''no user supplied before @ sign in username (format should be admin@internal)''"
| "Error UsernameNoScope =
     ''no scope supplied after @ sign in username (format should be admin@internal)''"
| "Error (InvalidUsername username err) =
     ''invalid username: '' @ username @ '' ('' @ Error err @ '')''"
| "Error MissingTrustConfiguration = ''one of caFile, caCert, or insecure must be provided''"
| "Error (ConnectionBuildError err) =
     ''failed to create underlying oVirt connection ('' @ Error err @ '')''"
| "Error InlineCertNotPEM =
     ''the provided CA certificate is not a valid certificate in PEM format''"
| "Error (CAFileReadError caFile err) =
     ''failed to read CA certificate from file '' @ caFile @ '' ('' @ Error err @ '')''"
| "Error (CAFileNotPEM caFile) =
     ''the provided CA certificate is not a valid certificate in PEM format in file '' @ caFile"
| "Error (CertificateError err) = ''failed to create TLS configuration ('' @ Error err @ '')''"
| "Error (RemoveFailed diskID err) =
     ''failed to remove disk '' @ diskID @ '' ('' @ Error err @ '')''"
| "Error (Timeout diskID lastError) =
     ''timeout while tryint to remove disk '' @ diskID @ '' (last error: ''
       @ (case lastError of None \<Rightarrow> ''%!w(<nil>)'' | Some err \<Rightarrow> Error err) @ '')''"

text \<open>\<^verbatim>\<open>errors.Unwrap\<close>: the error wrapped with \<^verbatim>\<open>%w\<close>, if any.\<close>

fun Unwrap :: "error \<Rightarrow> error option" where
  "Unwrap (InvalidURL url err) = Some err"
| "Unwrap (InvalidUsername username err) = Some err"
| "Unwrap (ConnectionBuildError err) = Some err"
| "Unwrap (CAFileReadError caFile err) = Some err"
| "Unwrap (CertificateError err) = Some err"
| "Unwrap (RemoveFailed diskID err) = Some err"
| "Unwrap (Timeout diskID lastError) = lastError"
| "Unwrap _ = None"

section \<open>Validation of the parameters\<close>

text \<open>
  \<^verbatim>\<open>
  func validateUsername(username string) error {
      usernameParts := strings.SplitN(username, "@", 2)
      if len(usernameParts) != 2 { return fmt.Errorf("username must contain exactly one @ sign ...") }
      if len(usernameParts[0]) == 0 { return fmt.Errorf("no user supplied before @ sign ...") }
      if len(usernameParts[1]) == 0 { return fmt.Errorf("no scope supplied after @ sign ...") }
      return nil
  }
  \<close>
  A returned \<^verbatim>\<open>nil\<close> is \<^const>\<open>None\<close>. The two index reads happen only when
  the list has length 2.
\<close>

definition validateUsername :: "string \<Rightarrow> error option" where
  "validateUsername username =
     (let usernameParts = SplitN username ''@'' 2 in
      if length usernameParts \<noteq> 2 then Some UsernameAtSignError
      else if length (usernameParts ! 0) = 0 then Some UsernameNoUser
      else if length (usernameParts ! 1) = 0 then Some UsernameNoScope
      else None)"

text \<open>
  \<^verbatim>\<open>
  func validateURL(url string) error {
      if !strings.HasPrefix(url, "http://") && !strings.HasSuffix(url, "https://") {
          return fmt.Errorf("URL must start with http:// or https://")
      }
      return nil
  }
  \<close>
\<close>

definition validateURL :: "string \<Rightarrow> error option" where
  "validateURL url =
     (if \<not> HasPrefix url ''http://'' \<and> \<not> HasSuffix url ''https://''
      then Some URLSchemeError else None)"

section \<open>The TLS configuration\<close>

text \<open>
  The constants of \<^verbatim>\<open>crypto/tls\<close> are kept by name: the protocol versions, the
  curve identifiers and the cipher suites of TLS 1.0 to 1.2 that the package exports.
\<close>

datatype tls_version = VersionTLS10 | VersionTLS11 | VersionTLS12 | VersionTLS13

datatype CurveID = CurveP256 | CurveP384 | CurveP521 | X25519

datatype cipher_suite =
    TLS_RSA_WITH_RC4_128_SHA
  | TLS_RSA_WITH_3DES_EDE_CBC_SHA
  | TLS_RSA_WITH_AES_128_CBC_SHA
  | TLS_RSA_WITH_AES_256_CBC_SHA
  | TLS_RSA_WITH_AES_128_GCM_SHA256
  | TLS_RSA_WITH_AES_256_GCM_SHA384
  | TLS_ECDHE_ECDSA_WITH_AES_128_CBC_SHA
  | TLS_ECDHE_ECDSA_WITH_AES_256_CBC_SHA
  | TLS_ECDHE_RSA_WITH_AES_128_CBC_SHA
  | TLS_ECDHE_RSA_WITH_AES_256_CBC_SHA
  | TLS_ECDHE_RSA_WITH_AES_128_GCM_SHA256
  | TLS_ECDHE_ECDSA_WITH_AES_128_GCM_SHA256
  | TLS_ECDHE_RSA_WITH_AES_256_GCM_SHA384
  | TLS_ECDHE_ECDSA_WITH_AES_256_GCM_SHA384
  | TLS_ECDHE_RSA_WITH_CHACHA20_POLY1305
  | TLS_ECDHE_ECDSA_WITH_CHACHA20_POLY1305

text \<open>
  What a suite's name says: whether the key exchange is ECDHE, which certificate key
  authenticates the server, and the bulk cipher.
\<close>

datatype server_key = ECDSA | RSA

datatype bulk_cipher =
  RC4_128 | TripleDES_EDE_CBC | AES_128_CBC | AES_256_CBC
  | AES_128_GCM | AES_256_GCM | CHACHA20_POLY1305

fun is_ECDHE :: "cipher_suite \<Rightarrow> bool" where
  "is_ECDHE TLS_RSA_WITH_RC4_128_SHA = False"
| "is_ECDHE TLS_RSA_WITH_3DES_EDE_CBC_SHA = False"
| "is_ECDHE TLS_RSA_WITH_AES_128_CBC_SHA = False"
| "is_ECDHE TLS_RSA_WITH_AES_256_CBC_SHA = False"
| "is_ECDHE TLS_RSA_WITH_AES_128_GCM_SHA256 = False"
| "is_ECDHE TLS_RSA_WITH_AES_256_GCM_SHA384 = False"
| "is_ECDHE _ = True"

fun server_key_of :: "cipher_suite \<Rightarrow> server_key" where
  "server_key_of TLS_ECDHE_ECDSA_WITH_AES_128_CBC_SHA = ECDSA"
| "server_key_of TLS_ECDHE_ECDSA_WITH_AES_256_CBC_SHA = ECDSA"
| "server_key_of TLS_ECDHE_ECDSA_WITH_AES_128_GCM_SHA256 = ECDSA"
| "server_key_of TLS_ECDHE_ECDSA_WITH_AES_256_GCM_SHA384 = ECDSA"
| "server_key_of TLS_ECDHE_ECDSA_WITH_CHACHA20_POLY1305 = ECDSA"
| "server_key_of _ = RSA"

fun bulk_cipher_of :: "cipher_suite \<Rightarrow> bulk_cipher" where
  "bulk_cipher_of TLS_RSA_WITH_RC4_128_SHA = RC4_128"
| "bulk_cipher_of TLS_RSA_WITH_3DES_EDE_CBC_SHA = TripleDES_EDE_CBC"
| "bulk_cipher_of TLS_RSA_WITH_AES_128_CBC_SHA = AES_128_CBC"
| "bulk_cipher_of TLS_RSA_WITH_AES_256_CBC_SHA = AES_256_CBC"
| "bulk_cipher_of TLS_RSA_WITH_AES_128_GCM_SHA256 = AES_128_GCM"
| "bulk_cipher_of TLS_RSA_WITH_AES_256_GCM_SHA384 = AES_256_GCM"
| "bulk_cipher_of TLS_ECDHE_ECDSA_WITH_AES_128_CBC_SHA = AES_128_CBC"
| "bulk_cipher_of TLS_ECDHE_ECDSA_WITH_AES_256_CBC_SHA = AES_256_CBC"
| "bulk_cipher_of TLS_ECDHE_RSA_WITH_AES_128_CBC_SHA = AES_128_CBC"
| "bulk_cipher_of TLS_ECDHE_RSA_WITH_AES_256_CBC_SHA = AES_256_CBC"
| "bulk_cipher_of TLS_ECDHE_RSA_WITH_AES_128_GCM_SHA256 = AES_128_GCM"
| "bulk_cipher_of TLS_ECDHE_ECDSA_WITH_AES_128_GCM_SHA256 = AES_128_GCM"
| "bulk_cipher_of TLS_ECDHE_RSA_WITH_AES_256_GCM_SHA384 = AES_256_GCM"
| "bulk_cipher_of TLS_ECDHE_ECDSA_WITH_AES_256_GCM_SHA384 = AES_256_GCM"
| "bulk_cipher_of TLS_ECDHE_RSA_WITH_CHACHA20_POLY1305 = CHACHA20_POLY1305"
| "bulk_cipher_of TLS_ECDHE_ECDSA_WITH_CHACHA20_POLY1305 = CHACHA20_POLY1305"

fun is_AEAD :: "bulk_cipher \<Rightarrow> bool" where
  "is_AEAD AES_128_GCM = True"
| "is_AEAD AES_256_GCM = True"
| "is_AEAD CHACHA20_POLY1305 = True"
| "is_AEAD _ = False"

text \<open>
  A certificate is kept as its bytes and a pool (\<^verbatim>\<open>*x509.CertPool\<close>) as the list of
  its certificates. The fields of \<^verbatim>\<open>tls.Config\<close> are those the source sets, and
  \<open>RootCAs\<close>, which it leaves at its zero value \<^verbatim>\<open>nil\<close>.
\<close>

type_synonym certificate = bytes

type_synonym CertPool = "certificate list"

record tls_Config =
  MinVersion :: tls_version
  CipherSuites :: "cipher_suite list"
  CurvePreferences :: "CurveID list"
  PreferServerCipherSuites :: bool
  InsecureSkipVerify :: bool
  RootCAs :: "CertPool option"

record http_Transport =
  TLSClientConfig :: tls_Config

record http_Client =
  Transport :: http_Transport

section \<open>The outside world\<close>

text \<open>
  The connection builder of the SDK (\<^verbatim>\<open>ovirtsdk4.NewConnectionBuilder()\<close>) collects
  what its setters are given; \<open>'l\<close> is the type of loggers. A logger is a value of
  the interface \<^verbatim>\<open>Logger\<close> that is not \<^verbatim>\<open>nil\<close>, so that \<^verbatim>\<open>logger.Logf\<close> can be
  taken.
\<close>

record 'l ConnectionBuilder =
  cbURL :: string
  cbUsername :: string
  cbPassword :: string
  cbCAFile :: string
  cbCACert :: bytes
  cbInsecure :: bool
  cbLogFunc :: "'l option"
  cbHeaders :: "(string \<times> string) list"

definition NewConnectionBuilder :: "'l ConnectionBuilder" where
  "NewConnectionBuilder =
     \<lparr>cbURL = [], cbUsername = [], cbPassword = [], cbCAFile = [], cbCACert = [],
      cbInsecure = False, cbLogFunc = None, cbHeaders = []\<rparr>"

text \<open>
  What the code calls and does not define, as functions of an environment; \<open>'c\<close> is
  the type of SDK connections (\<^verbatim>\<open>*ovirtsdk4.Connection\<close>).
  \<^item> \<open>sdk_Build\<close>: \<^verbatim>\<open>connBuilder.Build()\<close>.
  \<^item> \<open>x509_SystemCertPool\<close>: \<^verbatim>\<open>x509.SystemCertPool()\<close>.
  \<^item> \<open>pem_certificates\<close>: the certificates that \<^verbatim>\<open>AppendCertsFromPEM\<close> finds in
    some bytes (none when they are not PEM).
  \<^item> \<open>ioutil_ReadFile\<close>: \<^verbatim>\<open>ioutil.ReadFile(path)\<close>.
  \<^item> \<open>sdk_RemoveSend\<close>: the outcome of the \<open>n\<close>-th request
    \<^verbatim>\<open>conn.SystemService().DisksService().DiskService(diskID).Remove().Send()\<close>
    that the program sends (\<^const>\<open>None\<close>: no error).
\<close>

record ('c, 'l) environment =
  sdk_Build :: "'l ConnectionBuilder \<Rightarrow> error + 'c"
  x509_SystemCertPool :: "error + CertPool"
  pem_certificates :: "bytes \<Rightarrow> certificate list"
  ioutil_ReadFile :: "string \<Rightarrow> error + bytes"
  sdk_RemoveSend :: "'c \<Rightarrow> string \<Rightarrow> nat \<Rightarrow> error option"

definition NewCertPool :: CertPool where
  "NewCertPool = []"

text \<open>
  \<^verbatim>\<open>certPool.AppendCertsFromPEM(pemCerts) (ok bool)\<close>: the pool with the certificates
  found appended, and whether any was found.
\<close>

definition AppendCertsFromPEM ::
  "('c, 'l) environment \<Rightarrow> CertPool \<Rightarrow> bytes \<Rightarrow> CertPool \<times> bool" where
  "AppendCertsFromPEM env certPool pemCerts =
     (certPool @ pem_certificates env pemCerts, pem_certificates env pemCerts \<noteq> [])"

text \<open>
  \<^verbatim>\<open>createTLSConfig(caFile, caCert, insecure)\<close>. The pool is filled and checked but
  never stored in the configuration, as in the source.
\<close>

definition createTLSConfig ::
  "('c, 'l) environment \<Rightarrow> string \<Rightarrow> bytes \<Rightarrow> bool \<Rightarrow> error + tls_Config" where
  "createTLSConfig env caFile caCert insecure =
     (let tlsConfig =
            \<lparr>MinVersion = VersionTLS12,
             CipherSuites =
               [TLS_ECDHE_ECDSA_WITH_AES_128_GCM_SHA256,
                TLS_ECDHE_RSA_WITH_AES_128_GCM_SHA256,
                TLS_ECDHE_ECDSA_WITH_AES_256_GCM_SHA384,
                TLS_ECDHE_RSA_WITH_AES_256_GCM_SHA384,
                TLS_ECDHE_ECDSA_WITH_CHACHA20_POLY1305,
                TLS_ECDHE_RSA_WITH_CHACHA20_POLY1305],
             CurvePreferences = [CurveP256, CurveP384],
             PreferServerCipherSuites = False,
             InsecureSkipVerify = insecure,
             RootCAs = None\<rparr>;
          certPool =
            (case x509_SystemCertPool env of Inl err \<Rightarrow> NewCertPool | Inr pool \<Rightarrow> pool)
      in case (if length caCert \<noteq> 0
               then (case AppendCertsFromPEM env certPool caCert of
                       (certPool', ok) \<Rightarrow> if \<not> ok then Inl InlineCertNotPEM else Inr certPool')
               else Inr certPool) of
           Inl err \<Rightarrow> Inl err
         | Inr certPool \<Rightarrow>
             if caFile \<noteq> [] then
               (case ioutil_ReadFile env caFile of
                  Inl err \<Rightarrow> Inl (CAFileReadError caFile err)
                | Inr pemData \<Rightarrow>
                    (case AppendCertsFromPEM env certPool pemData of
                       (certPool', ok) \<Rightarrow>
                         if \<not> ok then Inl (CAFileNotPEM caFile) else Inr tlsConfig))
             else Inr tlsConfig)"

text \<open>
  The configuration that \<^verbatim>\<open>createTLSConfig\<close> builds in its first statement, by name:
  it depends on \<open>insecure\<close> alone.
\<close>

definition tlsProfile :: "bool \<Rightarrow> tls_Config" where
  "tlsProfile insecure =
     \<lparr>MinVersion = VersionTLS12,
      CipherSuites =
        [TLS_ECDHE_ECDSA_WITH_AES_128_GCM_SHA256,
         TLS_ECDHE_RSA_WITH_AES_128_GCM_SHA256,
         TLS_ECDHE_ECDSA_WITH_AES_256_GCM_SHA384,
         TLS_ECDHE_RSA_WITH_AES_256_GCM_SHA384,
         TLS_ECDHE_ECDSA_WITH_CHACHA20_POLY1305,
         TLS_ECDHE_RSA_WITH_CHACHA20_POLY1305],
      CurvePreferences = [CurveP256, CurveP384],
      PreferServerCipherSuites = False,
      InsecureSkipVerify = insecure,
      RootCAs = None\<rparr>"

section \<open>The client\<close>

text \<open>
  The struct \<^verbatim>\<open>oVirtClient\<close>; its fields \<^verbatim>\<open>conn\<close>, \<^verbatim>\<open>httpClient\<close>, \<^verbatim>\<open>logger\<close> and
  \<^verbatim>\<open>url\<close> carry the receiver's name \<^verbatim>\<open>o\<close> in front, so that \<^verbatim>\<open>o.url\<close> reads
  \<open>o_url o\<close>.
\<close>

record ('c, 'l) oVirtClient =
  o_conn :: 'c
  o_httpClient :: http_Client
  o_logger :: 'l
  o_url :: string

text \<open>
  The builder that \<^verbatim>\<open>New\<close> hands to \<^verbatim>\<open>Build()\<close>:
  \<^verbatim>\<open>
  connBuilder := ovirtsdk4.NewConnectionBuilder().
      URL(url).Username(username).Password(password).
      CAFile(caFile).CACert(caCert).Insecure(insecure).LogFunc(logger.Logf)
  if len(extraHeaders) > 0 {
      connBuilder.Headers(extraHeaders)
  }
  \<close>
  \<open>extraHeaders\<close> is a Go map; only its length is looked at, and it is kept as the list
  of its entries.
\<close>

definition New_connBuilder ::
  "string \<Rightarrow> string \<Rightarrow> string \<Rightarrow> string \<Rightarrow> bytes \<Rightarrow> bool \<Rightarrow> (string \<times> string) list \<Rightarrow> 'l
     \<Rightarrow> 'l ConnectionBuilder" where
  "New_connBuilder url username password caFile caCert insecure extraHeaders logger =
     (let connBuilder =
            (NewConnectionBuilder
               \<lparr>cbURL := url, cbUsername := username, cbPassword := password,
                cbCAFile := caFile, cbCACert := caCert, cbInsecure := insecure,
                cbLogFunc := Some logger\<rparr>)
      in (if length extraHeaders > 0
          then connBuilder\<lparr>cbHeaders := extraHeaders\<rparr>
          else connBuilder))"

text \<open>
  \<^verbatim>\<open>New(url, username, password, caFile, caCert, insecure, extraHeaders, logger)\<close>:
  the checks in the order of the source, each returning at once when it fails.
\<close>

definition New ::
  "('c, 'l) environment \<Rightarrow> string \<Rightarrow> string \<Rightarrow> string \<Rightarrow> string \<Rightarrow> bytes \<Rightarrow> bool
     \<Rightarrow> (string \<times> string) list \<Rightarrow> 'l \<Rightarrow> error + ('c, 'l) oVirtClient" where
  "New env url username password caFile caCert insecure extraHeaders logger =
     (case validateURL url of
        Some err \<Rightarrow> Inl (InvalidURL url err)
      | None \<Rightarrow>
          (case validateUsername username of
             Some err \<Rightarrow> Inl (InvalidUsername username err)
           | None \<Rightarrow>
               (if caFile = [] \<and> length caCert = 0 \<and> \<not> insecure
                then Inl MissingTrustConfiguration
                else
                  (case sdk_Build env
                          (New_connBuilder url username password caFile caCert insecure
                             extraHeaders logger) of
                     Inl err \<Rightarrow> Inl (ConnectionBuildError err)
                   | Inr conn \<Rightarrow>
                       (case createTLSConfig env caFile caCert insecure of
                          Inl err \<Rightarrow> Inl (CertificateError err)
                        | Inr tlsConfig \<Rightarrow>
                            (let httpClient =
                                   \<lparr>Transport = \<lparr>TLSClientConfig = tlsConfig\<rparr>\<rparr>
                             in Inr \<lparr>o_conn = conn, o_httpClient = httpClient,
                                      o_logger = logger, o_url = url\<rparr>))))))"

definition GetSDKClient :: "('c, 'l) oVirtClient \<Rightarrow> 'c" where
  "GetSDKClient o' = o_conn o'"

definition GetHTTPClient :: "('c, 'l) oVirtClient \<Rightarrow> http_Client" where
  "GetHTTPClient o' = o_httpClient o'"

definition GetURL :: "('c, 'l) oVirtClient \<Rightarrow> string" where
  "GetURL o' = o_url o'"

section \<open>Removing a disk\<close>

text \<open>
  What \<^verbatim>\<open>RemoveDisk\<close> does to the world is counted: \<open>sends\<close> is the number of removal
  requests sent so far, \<open>waits\<close> the number of times the timer
  \<^verbatim>\<open>time.After(5 * time.Second)\<close> ran out, \<open>slept\<close> the seconds spent in those waits.
\<close>

record world =
  sends :: nat
  waits :: nat
  slept :: nat

text \<open>
  A \<^verbatim>\<open>context.Context\<close> is known by its \<^verbatim>\<open>Done()\<close> channel alone: \<open>ctx k\<close> says
  whether, at the \<open>k\<close>-th \<^verbatim>\<open>select\<close> of a call (counted from 0), the case
  \<^verbatim>\<open><-ctx.Done()\<close> is the one taken, rather than the timer's. A context cancelled
  before the call has its channel closed at every \<^verbatim>\<open>select\<close>, where the timer has
  five seconds to go; a context that is never done leaves every \<^verbatim>\<open>select\<close> to the
  timer.
\<close>

type_synonym Context = "nat \<Rightarrow> bool"

definition cancelled :: Context where
  "cancelled = (\<lambda>k. True)"

definition background :: Context where
  "background = (\<lambda>k. False)"

text \<open>
  The loop of \<^verbatim>\<open>RemoveDisk\<close>:
  \<^verbatim>\<open>
  for {
      if _, err := ...Remove().Send(); err != nil {
          lastError = fmt.Errorf("failed to remove disk %s (%w)", diskID, err)
      } else {
          return nil
      }
      select {
      case <-time.After(5 * time.Second):
      case <-ctx.Done():
          return fmt.Errorf("timeout while tryint to remove disk %s (last error: %w)", diskID, lastError)
      }
  }
  \<close>
  It has no bound of its own, so it is a partial function: \<^const>\<open>None\<close> is a call
  that never returns, \<open>Some (err, w)\<close> one that returns \<open>err\<close> and leaves the world \<open>w\<close>.
  \<open>send\<close> gives the outcome of the \<open>n\<close>-th request, \<open>k\<close> counts the iterations.
\<close>

partial_function (option) RemoveDisk_loop ::
  "(nat \<Rightarrow> error option) \<Rightarrow> Context \<Rightarrow> string \<Rightarrow> error option \<Rightarrow> nat \<Rightarrow> world
     \<Rightarrow> (error option \<times> world) option" where
  "RemoveDisk_loop send ctx diskID lastError k w =
     (let w' = w\<lparr>sends := Suc (sends w)\<rparr> in
      case send (sends w) of
        None \<Rightarrow> Some (None, w')
      | Some err \<Rightarrow>
          (let lastError = Some (RemoveFailed diskID err) in
           if ctx k then Some (Some (Timeout diskID lastError), w')
           else RemoveDisk_loop send ctx diskID lastError (Suc k)
                  (w'\<lparr>waits := Suc (waits w'), slept := slept w' + 5\<rparr>)))"

definition RemoveDisk ::
  "('c, 'l) environment \<Rightarrow> ('c, 'l) oVirtClient \<Rightarrow> Context \<Rightarrow> string \<Rightarrow> world
     \<Rightarrow> (error option \<times> world) option" where
  "RemoveDisk env o' ctx diskID w =
     RemoveDisk_loop (sdk_RemoveSend env (o_conn o') diskID) ctx diskID None 0 w"

section \<open>Calls on a client, one after another\<close>

text \<open>
  The four methods have the pointer receiver \<^verbatim>\<open>o *oVirtClient\<close>. A call is run on
  the client and the world and gives back its result with the client and the world as
  the method leaves them: no method body assigns to a field of \<^verbatim>\<open>o\<close>, and only
  \<^verbatim>\<open>RemoveDisk\<close> acts on the world.
\<close>

datatype call =
    CallGetSDKClient
  | CallGetHTTPClient
  | CallGetURL
  | CallRemoveDisk Context string

datatype 'c result =
    SDKClient 'c
  | HTTPClient http_Client
  | URL string
  | Err "error option"

definition invoke ::
  "('c, 'l) environment \<Rightarrow> call \<Rightarrow> ('c, 'l) oVirtClient \<times> world
     \<Rightarrow> ('c result \<times> ('c, 'l) oVirtClient \<times> world) option" where
  "invoke env c s =
     (case s of (o', w) \<Rightarrow>
        (case c of
           CallGetSDKClient \<Rightarrow> Some (SDKClient (GetSDKClient o'), o', w)
         | CallGetHTTPClient \<Rightarrow> Some (HTTPClient (GetHTTPClient o'), o', w)
         | CallGetURL \<Rightarrow> Some (URL (GetURL o'), o', w)
         | CallRemoveDisk ctx diskID \<Rightarrow>
             (case RemoveDisk env o' ctx diskID w of
                None \<Rightarrow> None
              | Some (err, w') \<Rightarrow> Some (Err err, o', w'))))"

fun run ::
  "('c, 'l) environment \<Rightarrow> call list \<Rightarrow> ('c, 'l) oVirtClient \<times> world
     \<Rightarrow> ('c result list \<times> ('c, 'l) oVirtClient \<times> world) option" where
  "run env [] s = Some ([], s)"
| "run env (c # cs) s =
     (case invoke env c s of
        None \<Rightarrow> None
      | Some (r, s') \<Rightarrow>
          (case run env cs s' of
             None \<Rightarrow> None
           | Some (rs, s'') \<Rightarrow> Some (r # rs, s'')))"

section \<open>An environment to run the code in\<close>

text \<open>
  A test double of the outside world, with connections numbered and \<^typ>\<open>unit\<close> as
  the logger: the SDK refuses an empty password; the host has no system pool; bytes
  that begin with the PEM header hold one certificate; two files exist, one a
  certificate and one not; the disk \<open>locked\<close> is never removed and the disk \<open>busy\<close>
  is removed by the third request sent.
\<close>

definition pem_header :: string where
  "pem_header = ''-----BEGIN CERTIFICATE-----''"

definition test_env :: "(nat, unit) environment" where
  "test_env =
     \<lparr>sdk_Build =
        (\<lambda>cb. if cbPassword cb = [] then Inl (External ''the password must not be empty'')
              else Inr 1),
      x509_SystemCertPool = Inl (External ''system root pool is not available''),
      pem_certificates = (\<lambda>pemCerts. if HasPrefix pemCerts pem_header then [pemCerts] else []),
      ioutil_ReadFile =
        (\<lambda>path. if path = ''/etc/pki/ca.pem'' then Inr (pem_header @ ''MIIB'')
                else if path = ''/etc/pki/notes.txt'' then Inr ''not a certificate''
                else Inl (External ''no such file or directory'')),
      sdk_RemoveSend =
        (\<lambda>conn diskID n.
           if diskID = ''locked'' then Some (External ''disk is locked'')
           else if diskID = ''busy'' \<and> n < 2 then Some (External ''disk is busy'')
           else None)\<rparr>"

definition world0 :: world where
  "world0 = \<lparr>sends = 0, waits = 0, slept = 0\<rparr>"

section \<open>Facts about the string functions\<close>

lemma HasPrefix_iff_prefix: "HasPrefix s pre \<longleftrightarrow> prefix pre s"
  unfolding HasPrefix_def
  by (metis append_eq_conv_conj prefix_def prefix_length_le)

lemma HasSuffix_iff_suffix: "HasSuffix s suf \<longleftrightarrow> suffix suf s"
proof
  assume "HasSuffix s suf"
  then have "drop (length s - length suf) s = suf"
    by (simp add: HasSuffix_def)
  then have "s = take (length s - length suf) s @ suf"
    by (metis append_take_drop_id)
  then show "suffix suf s"
    unfolding suffix_def by blast
next
  assume "suffix suf s"
  then obtain pre where "s = pre @ suf"
    unfolding suffix_def by blast
  then show "HasSuffix s suf"
    by (simp add: HasSuffix_def)
qed

lemma HasPrefix_Cons_single: "HasPrefix (c # s) [a] \<longleftrightarrow> c = a"
  by (simp add: HasPrefix_def)

lemma Index_single_None: "Index s [a] = None \<longleftrightarrow> a \<notin> set s"
  by (induction s) (auto simp: HasPrefix_Cons_single)

lemma Index_single_absent: "a \<notin> set s \<Longrightarrow> Index s [a] = None"
  by (simp add: Index_single_None)

lemma Index_single_append: "a \<notin> set p \<Longrightarrow> Index (p @ a # s) [a] = Some (length p)"
  by (induction p) (auto simp: HasPrefix_Cons_single)

text \<open>Cutting at most once: the text is cut at its first separator, if it has one.\<close>

lemma SplitN_at_none: "a \<notin> set u \<Longrightarrow> SplitN u [a] 2 = [u]"
  by (simp add: SplitN_def numeral_2_eq_2 Index_single_absent)

lemma SplitN_at_first: "a \<notin> set p \<Longrightarrow> SplitN (p @ a # s) [a] 2 = [p, s]"
  by (simp add: SplitN_def numeral_2_eq_2 Index_single_append)

section \<open>What the errors say\<close>

lemma Error_https_scenario:
  "Error (InvalidURL ''https://engine.example/ovirt-engine/api'' URLSchemeError)
     = ''invalid URL: https://engine.example/ovirt-engine/api (URL must start with http:// or https://)''"
  by simp

lemma Error_names_caFile:
  "sublist caFile (Error (CertificateError (CAFileReadError caFile err)))"
  "sublist caFile (Error (CertificateError (CAFileNotPEM caFile)))"
proof -
  have "Error (CertificateError (CAFileReadError caFile err)) =
      ''failed to create TLS configuration (failed to read CA certificate from file '' @ caFile
        @ ('' ('' @ Error err @ ''))'')"
    by simp
  then show "sublist caFile (Error (CertificateError (CAFileReadError caFile err)))"
    unfolding sublist_def by blast
  have "Error (CertificateError (CAFileNotPEM caFile)) =
      ''failed to create TLS configuration (the provided CA certificate is not a valid certificate in PEM format in file ''
        @ caFile @ '')''"
    by simp
  then show "sublist caFile (Error (CertificateError (CAFileNotPEM caFile)))"
    unfolding sublist_def by blast
qed

lemma Error_inline:
  "Error (CertificateError InlineCertNotPEM) =
     ''failed to create TLS configuration (the provided CA certificate is not a valid certificate in PEM format)''"
  by simp

lemma Unwrap_Timeout:
  "Unwrap (Timeout diskID (Some (RemoveFailed diskID err))) = Some (RemoveFailed diskID err)"
  "Unwrap (RemoveFailed diskID err) = Some err"
  by simp_all

section \<open>The URL check\<close>

lemma validateURL_https_api:
  "validateURL ''https://engine.example/ovirt-engine/api'' = Some URLSchemeError"
  by (simp add: validateURL_def HasPrefix_def HasSuffix_def)

lemma New_InvalidURL_iff:
  "New env url username password caFile caCert insecure extraHeaders logger = Inl (InvalidURL u e)
     \<longleftrightarrow> u = url \<and> validateURL url = Some e"
  by (auto simp: New_def Let_def split: option.splits sum.splits)

text \<open>
  C10. The URL check passes exactly for the texts that start with \<open>http://\<close> or end
  with \<open>https://\<close>: every text that ends with \<open>https://\<close> passes, whatever its
  beginning, and every text that neither starts with \<open>http://\<close> nor ends with
  \<open>https://\<close> fails.
\<close>

theorem validateURL_http_prefix_or_https_suffix:
  "validateURL url =
     (if prefix ''http://'' url \<or> suffix ''https://'' url then None else Some URLSchemeError)"
  by (simp add: validateURL_def HasPrefix_iff_prefix HasSuffix_iff_suffix)

text \<open>
  C1. The claim is that a URL passes exactly when it starts with \<open>http://\<close> or with
  \<open>https://\<close>. The code differs in both directions: a URL that starts with
  \<open>https://\<close> is refused, and one that starts with neither but ends with \<open>https://\<close>
  passes.
\<close>

theorem validateURL_https_prefix_refused:
  "validateURL ''https://engine.example/ovirt-engine/api'' = Some URLSchemeError
   \<and> prefix ''https://'' ''https://engine.example/ovirt-engine/api''
   \<and> validateURL ''ftp://engine.example/https://'' = None
   \<and> \<not> prefix ''http://'' ''ftp://engine.example/https://''
   \<and> \<not> prefix ''https://'' ''ftp://engine.example/https://''"
  by (simp add: validateURL_def HasPrefix_def HasSuffix_def)

text \<open>
  C2. The scenario of the claim: \<^verbatim>\<open>New\<close> is called with the URL
  \<open>https://engine.example/ovirt-engine/api\<close>, the user \<open>admin@internal\<close>, the password
  \<open>x\<close>, no CA file, no CA bytes and \<open>insecure\<close> set. The claim is that it succeeds; the
  code refuses the URL, whatever the SDK would do.
\<close>

theorem New_https_scenario_InvalidURL:
  "New env ''https://engine.example/ovirt-engine/api'' ''admin@internal'' ''x'' [] [] True
       extraHeaders logger
     = Inl (InvalidURL ''https://engine.example/ovirt-engine/api'' URLSchemeError)"
  by (simp add: New_def validateURL_https_api)

section \<open>The username check\<close>

lemma validateUsername_no_at:
  "CHR ''@'' \<notin> set username \<Longrightarrow> validateUsername username = Some UsernameAtSignError"
  by (simp add: validateUsername_def SplitN_at_none)

lemma validateUsername_first_at:
  "CHR ''@'' \<notin> set p \<Longrightarrow>
   validateUsername (p @ ''@'' @ s) =
     (if p = [] then Some UsernameNoUser else if s = [] then Some UsernameNoScope else None)"
  by (simp add: validateUsername_def SplitN_at_first)

text \<open>What the check accepts: a non-empty part before the first \<open>@\<close> and a non-empty rest.\<close>

lemma validateUsername_None_iff:
  "validateUsername username = None \<longleftrightarrow>
   (\<exists>p s. username = p @ ''@'' @ s \<and> CHR ''@'' \<notin> set p \<and> p \<noteq> [] \<and> s \<noteq> [])"
proof (cases "CHR ''@'' \<in> set username")
  case False
  then show ?thesis
    by (auto simp: validateUsername_no_at)
next
  case True
  then obtain p s where u: "username = p @ CHR ''@'' # s" and p: "CHR ''@'' \<notin> set p"
    by (meson split_list_first)
  have v: "validateUsername username =
      (if p = [] then Some UsernameNoUser else if s = [] then Some UsernameNoScope else None)"
    using validateUsername_first_at [OF p, of s] u by simp
  have uniq: "p' = p \<and> s' = s"
    if "username = p' @ CHR ''@'' # s'" and "CHR ''@'' \<notin> set p'" for p' s'
  proof -
    have "p @ CHR ''@'' # s = p' @ CHR ''@'' # s'"
      using u that(1) by simp
    then show ?thesis
      using p that(2)
      by (auto simp: append_eq_append_conv2 append_eq_Cons_conv Cons_eq_append_conv)
  qed
  show ?thesis
  proof
    assume "validateUsername username = None"
    with v have "p \<noteq> []" "s \<noteq> []"
      by (auto split: if_splits)
    with u p show "\<exists>p s. username = p @ ''@'' @ s \<and> CHR ''@'' \<notin> set p \<and> p \<noteq> [] \<and> s \<noteq> []"
      by auto
  next
    assume "\<exists>p s. username = p @ ''@'' @ s \<and> CHR ''@'' \<notin> set p \<and> p \<noteq> [] \<and> s \<noteq> []"
    then obtain p' s' where "username = p' @ CHR ''@'' # s'" "CHR ''@'' \<notin> set p'"
      "p' \<noteq> []" "s' \<noteq> []"
      by auto
    with uniq have "p \<noteq> []" "s \<noteq> []"
      by blast+
    with v show "validateUsername username = None"
      by simp
  qed
qed

lemma New_InvalidUsername_iff:
  "New env url username password caFile caCert insecure extraHeaders logger
     = Inl (InvalidUsername u e)
   \<longleftrightarrow> u = username \<and> validateURL url = None \<and> validateUsername username = Some e"
  by (auto simp: New_def Let_def split: option.splits sum.splits)

lemma validateUsername_admin_internal: "validateUsername ''admin@internal'' = None"
  by (simp add: validateUsername_def SplitN_def numeral_2_eq_2 HasPrefix_def)

lemma validateURL_http_api:
  "validateURL ''http://engine.example/ovirt-engine/api'' = None"
  by (simp add: validateURL_def HasPrefix_def)

text \<open>
  C3. The claim is that a username passes exactly when it has one \<open>@\<close> between two
  non-empty parts, and that one with several \<open>@\<close> fails. The code cuts at the first
  \<open>@\<close> only and never looks for a second one: a username with two \<open>@\<close> passes,
  and \<^verbatim>\<open>New\<close> goes on to its next check.
\<close>

theorem validateUsername_second_at_accepted:
  "validateUsername ''admin@internal@extra'' = None
   \<and> count_list ''admin@internal@extra'' CHR ''@'' = 2
   \<and> New env ''http://engine.example/ovirt-engine/api'' ''admin@internal@extra'' ''x'' [] [] False
        extraHeaders logger
      = Inl MissingTrustConfiguration"
  by (simp add: New_def validateURL_http_api validateUsername_def SplitN_def numeral_2_eq_2
      HasPrefix_def)


section \<open>The trust check\<close>

text \<open>
  The check itself, for a URL and a username that the two checks before it accept:
  \<^verbatim>\<open>New\<close> fails with the error of the missing trust configuration exactly when
  \<open>caFile\<close> is empty, \<open>caCert\<close> is empty and \<open>insecure\<close> is false.
\<close>

lemma New_MissingTrustConfiguration_iff:
  assumes "validateURL url = None" and "validateUsername username = None"
  shows "New env url username password caFile caCert insecure extraHeaders logger
           = Inl MissingTrustConfiguration
         \<longleftrightarrow> caFile = [] \<and> caCert = [] \<and> \<not> insecure"
  using assms by (auto simp: New_def Let_def split: sum.splits)

lemma New_http_MissingTrustConfiguration:
  "New test_env ''http://engine.example/ovirt-engine/api'' ''admin@internal'' ''x'' [] [] False [] ()
     = Inl MissingTrustConfiguration
   \<and> New test_env ''http://engine.example/ovirt-engine/api'' ''admin@internal'' ''x'' [] [] True [] ()
     \<noteq> Inl MissingTrustConfiguration"
proof -
  note t = New_MissingTrustConfiguration_iff
    [OF validateURL_http_api validateUsername_admin_internal, where env = test_env
      and password = "''x''" and caFile = "[]" and caCert = "[]" and extraHeaders = "[]"
      and logger = "()"]
  show ?thesis
    using t [where insecure = False] t [where insecure = True] by simp
qed

text \<open>
  C7. The claim is that \<^verbatim>\<open>New\<close> fails with the error of the missing trust
  configuration whenever \<open>caFile\<close> is empty, \<open>caCert\<close> is empty and \<open>insecure\<close> is
  false, for every otherwise valid URL and username. The code does not: for the URL
  \<open>https://engine.example/ovirt-engine/api\<close>, which starts with \<open>https://\<close>, and the
  user \<open>admin@internal\<close>, with none of the three given, \<^verbatim>\<open>New\<close> never reaches the
  trust check and returns the error of the URL check instead.
\<close>

theorem New_https_no_trust_InvalidURL:
  "prefix ''https://'' ''https://engine.example/ovirt-engine/api''
   \<and> validateUsername ''admin@internal'' = None
   \<and> New env ''https://engine.example/ovirt-engine/api'' ''admin@internal'' ''x'' [] [] False
        extraHeaders logger
      = Inl (InvalidURL ''https://engine.example/ovirt-engine/api'' URLSchemeError)
   \<and> New env ''https://engine.example/ovirt-engine/api'' ''admin@internal'' ''x'' [] [] False
        extraHeaders logger
      \<noteq> Inl MissingTrustConfiguration"
  by (simp add: New_def validateURL_https_api validateUsername_admin_internal)

section \<open>The TLS configuration built\<close>

text \<open>The checks of \<^verbatim>\<open>createTLSConfig\<close>, the inline bytes before the file.\<close>

lemma createTLSConfig_inline_bad:
  "caCert \<noteq> [] \<Longrightarrow> pem_certificates env caCert = [] \<Longrightarrow>
   createTLSConfig env caFile caCert insecure = Inl InlineCertNotPEM"
  by (simp add: createTLSConfig_def Let_def AppendCertsFromPEM_def)

lemma createTLSConfig_inline_good:
  "caCert = [] \<or> pem_certificates env caCert \<noteq> [] \<Longrightarrow>
   createTLSConfig env caFile caCert insecure =
     (if caFile \<noteq> [] then
        (case ioutil_ReadFile env caFile of
           Inl err \<Rightarrow> Inl (CAFileReadError caFile err)
         | Inr pemData \<Rightarrow>
             if pem_certificates env pemData = [] then Inl (CAFileNotPEM caFile)
             else Inr (tlsProfile insecure))
      else Inr (tlsProfile insecure))"
  by (auto simp: createTLSConfig_def Let_def AppendCertsFromPEM_def tlsProfile_def
      split: sum.splits)

lemma createTLSConfig_Inr:
  "createTLSConfig env caFile caCert insecure = Inr tlsConfig \<Longrightarrow> tlsConfig = tlsProfile insecure"
  by (cases "caCert = [] \<or> pem_certificates env caCert \<noteq> []")
     (auto simp: createTLSConfig_inline_good createTLSConfig_inline_bad split: if_splits sum.splits)

text \<open>
  C8. Whenever \<^verbatim>\<open>createTLSConfig\<close> succeeds, the configuration has the minimum
  version TLS 1.2, the six cipher suites in their fixed order (all ECDHE with an AEAD
  cipher: AES-128-GCM, AES-256-GCM and ChaCha20-Poly1305, each with an ECDSA and an RSA
  certificate), the curves P-256 and P-384, and \<open>InsecureSkipVerify\<close> equal to the
  caller's \<open>insecure\<close>.
\<close>

theorem createTLSConfig_fixed_profile:
  assumes "createTLSConfig env caFile caCert insecure = Inr tlsConfig"
  shows "MinVersion tlsConfig = VersionTLS12
       \<and> CipherSuites tlsConfig =
           [TLS_ECDHE_ECDSA_WITH_AES_128_GCM_SHA256,
            TLS_ECDHE_RSA_WITH_AES_128_GCM_SHA256,
            TLS_ECDHE_ECDSA_WITH_AES_256_GCM_SHA384,
            TLS_ECDHE_RSA_WITH_AES_256_GCM_SHA384,
            TLS_ECDHE_ECDSA_WITH_CHACHA20_POLY1305,
            TLS_ECDHE_RSA_WITH_CHACHA20_POLY1305]
       \<and> length (CipherSuites tlsConfig) = 6
       \<and> list_all is_ECDHE (CipherSuites tlsConfig)
       \<and> map (\<lambda>s. (bulk_cipher_of s, server_key_of s)) (CipherSuites tlsConfig) =
           [(AES_128_GCM, ECDSA), (AES_128_GCM, RSA),
            (AES_256_GCM, ECDSA), (AES_256_GCM, RSA),
            (CHACHA20_POLY1305, ECDSA), (CHACHA20_POLY1305, RSA)]
       \<and> list_all (\<lambda>s. is_AEAD (bulk_cipher_of s)) (CipherSuites tlsConfig)
       \<and> CurvePreferences tlsConfig = [CurveP256, CurveP384]
       \<and> InsecureSkipVerify tlsConfig = insecure"
  using createTLSConfig_Inr [OF assms] by (simp add: tlsProfile_def)

lemma test_env_ca_pem:
  "createTLSConfig test_env ''/etc/pki/ca.pem'' [] False = Inr (tlsProfile False)"
  by (simp add: createTLSConfig_inline_good test_env_def HasPrefix_def pem_header_def)

theorem createTLSConfig_fixed_profile_witness:
  "createTLSConfig test_env ''/etc/pki/ca.pem'' [] False = Inr (tlsProfile False)
   \<and> MinVersion (tlsProfile False) = VersionTLS12
   \<and> length (CipherSuites (tlsProfile False)) = 6
   \<and> CurvePreferences (tlsProfile False) = [CurveP256, CurveP384]
   \<and> InsecureSkipVerify (tlsProfile False) = False"
  using createTLSConfig_fixed_profile [OF test_env_ca_pem] test_env_ca_pem by simp

section \<open>Unusable CA material\<close>

text \<open>
  C6, as amended. When the URL and the username pass their checks and the SDK builds
  the connection, \<^verbatim>\<open>New\<close> fails with the TLS configuration error around the error
  of the offending source: non-empty \<open>caCert\<close> bytes without a certificate give the
  inline error, whatever \<open>caFile\<close> is; and when the inline bytes are empty or hold a
  certificate, a non-empty \<open>caFile\<close> that cannot be read gives the read error with that
  path and the cause, and one whose contents hold no certificate gives the PEM error
  with that path.
\<close>

theorem New_CertificateError:
  assumes "validateURL url = None" and "validateUsername username = None"
    and "sdk_Build env
           (New_connBuilder url username password caFile caCert insecure extraHeaders logger)
         = Inr conn"
  shows "(caCert \<noteq> [] \<and> pem_certificates env caCert = [] \<longrightarrow>
            New env url username password caFile caCert insecure extraHeaders logger
              = Inl (CertificateError InlineCertNotPEM))
       \<and> (\<forall>err. caFile \<noteq> [] \<and> (caCert = [] \<or> pem_certificates env caCert \<noteq> [])
              \<and> ioutil_ReadFile env caFile = Inl err \<longrightarrow>
            New env url username password caFile caCert insecure extraHeaders logger
              = Inl (CertificateError (CAFileReadError caFile err)))
       \<and> (\<forall>pemData. caFile \<noteq> [] \<and> (caCert = [] \<or> pem_certificates env caCert \<noteq> [])
              \<and> ioutil_ReadFile env caFile = Inr pemData \<and> pem_certificates env pemData = [] \<longrightarrow>
            New env url username password caFile caCert insecure extraHeaders logger
              = Inl (CertificateError (CAFileNotPEM caFile)))"
proof (intro conjI allI impI)
  assume "caCert \<noteq> [] \<and> pem_certificates env caCert = []"
  then show "New env url username password caFile caCert insecure extraHeaders logger
              = Inl (CertificateError InlineCertNotPEM)"
    using assms by (simp add: New_def createTLSConfig_inline_bad)
next
  fix err
  assume "caFile \<noteq> [] \<and> (caCert = [] \<or> pem_certificates env caCert \<noteq> [])
              \<and> ioutil_ReadFile env caFile = Inl err"
  then show "New env url username password caFile caCert insecure extraHeaders logger
              = Inl (CertificateError (CAFileReadError caFile err))"
    using assms by (simp add: New_def createTLSConfig_inline_good)
next
  fix pemData
  assume "caFile \<noteq> [] \<and> (caCert = [] \<or> pem_certificates env caCert \<noteq> [])
              \<and> ioutil_ReadFile env caFile = Inr pemData \<and> pem_certificates env pemData = []"
  then show "New env url username password caFile caCert insecure extraHeaders logger
              = Inl (CertificateError (CAFileNotPEM caFile))"
    using assms by (simp add: New_def createTLSConfig_inline_good)
qed

lemma test_env_Build:
  "password \<noteq> [] \<Longrightarrow>
   sdk_Build test_env
     (New_connBuilder url username password caFile caCert insecure extraHeaders logger) = Inr 1"
  by (simp add: test_env_def New_connBuilder_def NewConnectionBuilder_def Let_def)

theorem New_CertificateError_witness:
  "New test_env ''http://engine.example/ovirt-engine/api'' ''admin@internal'' ''x''
       ''/etc/pki/ca.pem'' ''not a certificate'' False [] ()
     = Inl (CertificateError InlineCertNotPEM)
   \<and> New test_env ''http://engine.example/ovirt-engine/api'' ''admin@internal'' ''x''
       ''/etc/pki/missing.pem'' [] False [] ()
     = Inl (CertificateError
             (CAFileReadError ''/etc/pki/missing.pem'' (External ''no such file or directory'')))
   \<and> New test_env ''http://engine.example/ovirt-engine/api'' ''admin@internal'' ''x''
       ''/etc/pki/notes.txt'' [] False [] ()
     = Inl (CertificateError (CAFileNotPEM ''/etc/pki/notes.txt''))"
proof -
  note t = New_CertificateError [OF validateURL_http_api validateUsername_admin_internal test_env_Build,
      where password = "''x''" and insecure = False and extraHeaders = "[]" and logger = "()"]
  have bad: "pem_certificates test_env ''not a certificate'' = []"
    by (simp add: test_env_def HasPrefix_def pem_header_def)
  have missing: "ioutil_ReadFile test_env ''/etc/pki/missing.pem''
      = Inl (External ''no such file or directory'')"
    by (simp add: test_env_def)
  have readable: "ioutil_ReadFile test_env ''/etc/pki/notes.txt'' = Inr ''not a certificate''"
    by (simp add: test_env_def)
  show ?thesis
    using t [where caFile = "''/etc/pki/ca.pem''" and caCert = "''not a certificate''"]
      t [where caFile = "''/etc/pki/missing.pem''" and caCert = "[]"]
      t [where caFile = "''/etc/pki/notes.txt''" and caCert = "[]"]
      bad missing readable
    by simp
qed

text \<open>
  C6 as the claim has it fails: with inline bytes that hold no certificate, \<^verbatim>\<open>New\<close>
  returns the URL error when the URL is refused, and the error of the connection
  build when the SDK refuses to build, since both steps come before the TLS
  configuration.
\<close>

theorem New_bad_CA_other_error:
  "pem_certificates test_env ''not a certificate'' = []
   \<and> New test_env ''ftp://engine.example/ovirt-engine/api'' ''admin@internal'' ''x''
       [] ''not a certificate'' False [] ()
     = Inl (InvalidURL ''ftp://engine.example/ovirt-engine/api'' URLSchemeError)
   \<and> New test_env ''http://engine.example/ovirt-engine/api'' ''admin@internal'' []
       [] ''not a certificate'' False [] ()
     = Inl (ConnectionBuildError (External ''the password must not be empty''))"
  by (simp add: New_def validateURL_http_api validateUsername_admin_internal
      validateURL_def HasPrefix_def HasSuffix_def test_env_def pem_header_def
      New_connBuilder_def NewConnectionBuilder_def Let_def)


section \<open>Removing a disk: one turn of the loop\<close>

lemma RemoveDisk_loop_success:
  "send (sends w) = None \<Longrightarrow>
   RemoveDisk_loop send ctx diskID lastError k w = Some (None, w\<lparr>sends := Suc (sends w)\<rparr>)"
  by (subst RemoveDisk_loop.simps) simp

lemma RemoveDisk_loop_done:
  "send (sends w) = Some err \<Longrightarrow> ctx k \<Longrightarrow>
   RemoveDisk_loop send ctx diskID lastError k w =
     Some (Some (Timeout diskID (Some (RemoveFailed diskID err))), w\<lparr>sends := Suc (sends w)\<rparr>)"
  by (subst RemoveDisk_loop.simps) simp

lemma RemoveDisk_loop_retry:
  "send (sends w) = Some err \<Longrightarrow> \<not> ctx k \<Longrightarrow>
   RemoveDisk_loop send ctx diskID lastError k w =
     RemoveDisk_loop send ctx diskID (Some (RemoveFailed diskID err)) (Suc k)
       (w\<lparr>sends := Suc (sends w), waits := Suc (waits w), slept := slept w + 5\<rparr>)"
  by (subst RemoveDisk_loop.simps) simp

text \<open>
  C4. When every removal request fails and the context is cancelled before the call,
  \<^verbatim>\<open>RemoveDisk\<close> returns after exactly one request and no wait of the timer (the
  world has one more request sent and nothing else changed: the cancellation is seen
  at the \<^verbatim>\<open>select\<close> after the request, not before it), and what it returns is the
  timeout error whose cause is the failure of that request.
\<close>

theorem RemoveDisk_cancelled_one_attempt:
  assumes "\<And>n. sdk_RemoveSend env (o_conn o') diskID n = Some (err n)"
  shows "RemoveDisk env o' cancelled diskID w =
           Some (Some (Timeout diskID (Some (RemoveFailed diskID (err (sends w))))),
                 w\<lparr>sends := Suc (sends w)\<rparr>)"
  unfolding RemoveDisk_def
  by (rule RemoveDisk_loop_done) (simp_all add: assms cancelled_def)

lemma test_env_locked:
  "sdk_RemoveSend test_env c ''locked'' n = Some (External ''disk is locked'')"
  by (simp add: test_env_def)

theorem RemoveDisk_cancelled_one_attempt_witness:
  "RemoveDisk test_env \<lparr>o_conn = 1, o_httpClient = \<lparr>Transport = \<lparr>TLSClientConfig = tlsProfile True\<rparr>\<rparr>,
       o_logger = (), o_url = ''http://engine.example/ovirt-engine/api''\<rparr> cancelled ''locked'' world0
     = Some (Some (Timeout ''locked'' (Some (RemoveFailed ''locked'' (External ''disk is locked'')))),
             \<lparr>sends = 1, waits = 0, slept = 0\<rparr>)"
  using RemoveDisk_cancelled_one_attempt [of test_env _ "''locked''" "\<lambda>n. External ''disk is locked''" world0, OF test_env_locked]
  by (simp add: world0_def)

text \<open>
  C5. When the first two removal requests fail and the third succeeds, and the context
  is not done at the two waits between them, \<^verbatim>\<open>RemoveDisk\<close> returns \<^verbatim>\<open>nil\<close> after
  three requests and exactly two waits of five seconds; and in any turn of the loop, a
  request that succeeds makes it return \<^verbatim>\<open>nil\<close> at once, with no wait.
\<close>

theorem RemoveDisk_third_attempt_succeeds:
  assumes "sdk_RemoveSend env (o_conn o') diskID (sends w) = Some e1"
    and "sdk_RemoveSend env (o_conn o') diskID (sends w + 1) = Some e2"
    and "sdk_RemoveSend env (o_conn o') diskID (sends w + 2) = None"
    and "\<not> ctx 0" and "\<not> ctx 1"
  shows "RemoveDisk env o' ctx diskID w =
           Some (None, w\<lparr>sends := sends w + 3, waits := waits w + 2, slept := slept w + 10\<rparr>)
       \<and> (\<forall>lastError k w'. sdk_RemoveSend env (o_conn o') diskID (sends w') = None \<longrightarrow>
             RemoveDisk_loop (sdk_RemoveSend env (o_conn o') diskID) ctx diskID lastError k w' =
               Some (None, w'\<lparr>sends := Suc (sends w')\<rparr>))"
proof
  show "RemoveDisk env o' ctx diskID w =
           Some (None, w\<lparr>sends := sends w + 3, waits := waits w + 2, slept := slept w + 10\<rparr>)"
    unfolding RemoveDisk_def using assms
    by (simp add: RemoveDisk_loop_retry RemoveDisk_loop_success eval_nat_numeral)
next
  show "\<forall>lastError k w'. sdk_RemoveSend env (o_conn o') diskID (sends w') = None \<longrightarrow>
             RemoveDisk_loop (sdk_RemoveSend env (o_conn o') diskID) ctx diskID lastError k w' =
               Some (None, w'\<lparr>sends := Suc (sends w')\<rparr>)"
    by (simp add: RemoveDisk_loop_success)
qed


lemma test_env_busy:
  "sdk_RemoveSend test_env c ''busy'' n = (if n < 2 then Some (External ''disk is busy'') else None)"
  by (simp add: test_env_def)

theorem RemoveDisk_third_attempt_succeeds_witness:
  "RemoveDisk test_env
       \<lparr>o_conn = 1, o_httpClient = \<lparr>Transport = \<lparr>TLSClientConfig = tlsProfile True\<rparr>\<rparr>,
        o_logger = (), o_url = ''http://engine.example/ovirt-engine/api''\<rparr>
       background ''busy'' world0
     = Some (None, \<lparr>sends = 3, waits = 2, slept = 10\<rparr>)
   \<and> RemoveDisk_loop (sdk_RemoveSend test_env 1 ''busy'') background ''busy'' None 0
       \<lparr>sends = 2, waits = 7, slept = 35\<rparr>
     = Some (None, \<lparr>sends = 3, waits = 7, slept = 35\<rparr>)"
proof -
  let ?o = "\<lparr>o_conn = 1::nat, o_httpClient = \<lparr>Transport = \<lparr>TLSClientConfig = tlsProfile True\<rparr>\<rparr>,
        o_logger = (), o_url = ''http://engine.example/ovirt-engine/api''\<rparr>"
  have a: "sdk_RemoveSend test_env (o_conn ?o) ''busy'' (sends world0) = Some (External ''disk is busy'')"
    by (simp add: test_env_busy world0_def)
  have b: "sdk_RemoveSend test_env (o_conn ?o) ''busy'' (sends world0 + 1) = Some (External ''disk is busy'')"
    by (simp add: test_env_busy world0_def)
  have c: "sdk_RemoveSend test_env (o_conn ?o) ''busy'' (sends world0 + 2) = None"
    by (simp add: test_env_busy world0_def)
  have d: "\<not> background 0" "\<not> background 1"
    by (simp_all add: background_def)
  show ?thesis
    using RemoveDisk_third_attempt_succeeds [OF a b c d]
    by (simp add: world0_def test_env_busy)
qed

text \<open>
  The loop has no bound of its own: when every request fails and the context is never
  done, the call never returns.
\<close>

lemma RemoveDisk_loop_no_result:
  assumes "RemoveDisk_loop send ctx diskID lastError k w = Some r"
  shows "\<not> ((\<forall>n. send n \<noteq> None) \<and> (\<forall>j. \<not> ctx j))"
proof (rule RemoveDisk_loop.raw_induct
    [where P = "\<lambda>send ctx diskID lastError k w r. \<not> ((\<forall>n. send n \<noteq> None) \<and> (\<forall>j. \<not> ctx j))",
     OF _ assms])
  fix loop :: "(nat \<Rightarrow> error option) \<Rightarrow> Context \<Rightarrow> string \<Rightarrow> error option \<Rightarrow> nat \<Rightarrow> world
     \<Rightarrow> (error option \<times> world) option"
  fix send ctx diskID lastError k w r
  assume IH: "\<And>send ctx diskID lastError k w r.
      loop send ctx diskID lastError k w = Some r \<Longrightarrow>
      \<not> ((\<forall>n. send n \<noteq> None) \<and> (\<forall>j. \<not> ctx j))"
  assume body: "(let w' = w\<lparr>sends := Suc (sends w)\<rparr> in
      case send (sends w) of
        None \<Rightarrow> Some (None, w')
      | Some err \<Rightarrow>
          (let lastError = Some (RemoveFailed diskID err) in
           if ctx k then Some (Some (Timeout diskID lastError), w')
           else loop send ctx diskID lastError (Suc k)
                  (w'\<lparr>waits := Suc (waits w'), slept := slept w' + 5\<rparr>))) = Some r"
  show "\<not> ((\<forall>n. send n \<noteq> None) \<and> (\<forall>j. \<not> ctx j))"
  proof
    assume always: "(\<forall>n. send n \<noteq> None) \<and> (\<forall>j. \<not> ctx j)"
    then obtain err where err: "send (sends w) = Some err"
      by auto
    from always have "\<not> ctx k"
      by simp
    with body err have "loop send ctx diskID (Some (RemoveFailed diskID err)) (Suc k)
        (w\<lparr>sends := Suc (sends w), waits := Suc (waits w), slept := slept w + 5\<rparr>) = Some r"
      by (simp add: Let_def)
    from IH [OF this] always show False
      by blast
  qed
qed

lemma RemoveDisk_loop_never_returns:
  assumes "\<forall>n. send n \<noteq> None" and "\<forall>j. \<not> ctx j"
  shows "RemoveDisk_loop send ctx diskID lastError k w = None"
proof (cases "RemoveDisk_loop send ctx diskID lastError k w")
  case None
  then show ?thesis .
next
  case (Some r)
  from RemoveDisk_loop_no_result [OF this] assms show ?thesis
    by blast
qed

lemma RemoveDisk_locked_background:
  "RemoveDisk test_env o' background ''locked'' w = None"
  unfolding RemoveDisk_def
  by (rule RemoveDisk_loop_never_returns) (simp_all add: test_env_locked background_def)

section \<open>The client after its methods\<close>

lemma invoke_keeps_client:
  assumes "invoke env c (o', w) = Some (r, o'', w')"
  shows "o'' = o'
       \<and> (c = CallGetSDKClient \<longrightarrow> r = SDKClient (GetSDKClient o'))
       \<and> (c = CallGetHTTPClient \<longrightarrow> r = HTTPClient (GetHTTPClient o'))
       \<and> (c = CallGetURL \<longrightarrow> r = URL (GetURL o'))"
  using assms by (cases c) (auto simp: invoke_def split: option.splits)

lemma run_keeps_client:
  assumes "run env cs (o', w) = Some (rs, o'', w')"
  shows "o'' = o' \<and> length rs = length cs
       \<and> (\<forall>i<length cs.
            (cs ! i = CallGetSDKClient \<longrightarrow> rs ! i = SDKClient (GetSDKClient o'))
          \<and> (cs ! i = CallGetHTTPClient \<longrightarrow> rs ! i = HTTPClient (GetHTTPClient o'))
          \<and> (cs ! i = CallGetURL \<longrightarrow> rs ! i = URL (GetURL o')))"
  using assms
proof (induction cs arbitrary: w rs)
  case Nil
  then show ?case by simp
next
  case (Cons c cs)
  from Cons.prems obtain r o1 w1 rs1 where
    inv: "invoke env c (o', w) = Some (r, o1, w1)" and
    rest: "run env cs (o1, w1) = Some (rs1, o'', w')" and
    rs: "rs = r # rs1"
    by (auto split: option.splits)
  from invoke_keeps_client [OF inv] have o1: "o1 = o'" and
    r: "c = CallGetSDKClient \<longrightarrow> r = SDKClient (GetSDKClient o')"
       "c = CallGetHTTPClient \<longrightarrow> r = HTTPClient (GetHTTPClient o')"
       "c = CallGetURL \<longrightarrow> r = URL (GetURL o')"
    by simp_all
  from Cons.IH [OF rest [unfolded o1]] have
    ih: "o'' = o'" "length rs1 = length cs"
      "\<forall>i<length cs.
            (cs ! i = CallGetSDKClient \<longrightarrow> rs1 ! i = SDKClient (GetSDKClient o'))
          \<and> (cs ! i = CallGetHTTPClient \<longrightarrow> rs1 ! i = HTTPClient (GetHTTPClient o'))
          \<and> (cs ! i = CallGetURL \<longrightarrow> rs1 ! i = URL (GetURL o'))"
    by simp_all
  show ?case
  proof (intro conjI allI impI)
    show "o'' = o'" by (rule ih(1))
    show "length rs = length (c # cs)" using ih(2) rs by simp
  next
    fix i assume "i < length (c # cs)" "(c # cs) ! i = CallGetSDKClient"
    then show "rs ! i = SDKClient (GetSDKClient o')"
      using r(1) ih(3) rs by (cases i) auto
  next
    fix i assume "i < length (c # cs)" "(c # cs) ! i = CallGetHTTPClient"
    then show "rs ! i = HTTPClient (GetHTTPClient o')"
      using r(2) ih(3) rs by (cases i) auto
  next
    fix i assume "i < length (c # cs)" "(c # cs) ! i = CallGetURL"
    then show "rs ! i = URL (GetURL o')"
      using r(3) ih(3) rs by (cases i) auto
  qed
qed

lemma New_Inr_fields:
  assumes "New env url username password caFile caCert insecure extraHeaders logger = Inr o'"
  shows "o_url o' = url \<and> o_logger o' = logger
       \<and> sdk_Build env (New_connBuilder url username password caFile caCert insecure extraHeaders logger)
           = Inr (o_conn o')
       \<and> o_httpClient o' = \<lparr>Transport = \<lparr>TLSClientConfig = tlsProfile insecure\<rparr>\<rparr>"
  using assms
  by (auto simp: New_def Let_def split: option.splits sum.splits if_splits
      dest: createTLSConfig_Inr)

text \<open>
  C9. For a client returned by \<^verbatim>\<open>New\<close> and any sequence of calls of its methods
  that returns (\<^verbatim>\<open>RemoveDisk\<close> among them), the client is afterwards the one
  \<^verbatim>\<open>New\<close> returned, with the same connection, HTTP client, logger and URL; every
  call of \<^verbatim>\<open>GetSDKClient\<close>, \<^verbatim>\<open>GetHTTPClient\<close> and \<^verbatim>\<open>GetURL\<close> in the sequence
  returns the value the first one would, and \<^verbatim>\<open>GetURL\<close> returns the URL given to
  \<^verbatim>\<open>New\<close>.
\<close>

theorem client_fields_never_change:
  assumes "New env url username password caFile caCert insecure extraHeaders logger = Inr o'"
    and "run env cs (o', w) = Some (rs, o'', w')"
  shows "o'' = o'
       \<and> o_conn o'' = o_conn o' \<and> o_httpClient o'' = o_httpClient o'
       \<and> o_logger o'' = o_logger o' \<and> o_url o'' = o_url o'
       \<and> GetURL o' = url
       \<and> length rs = length cs
       \<and> (\<forall>i<length cs.
            (cs ! i = CallGetSDKClient \<longrightarrow> rs ! i = SDKClient (GetSDKClient o'))
          \<and> (cs ! i = CallGetHTTPClient \<longrightarrow> rs ! i = HTTPClient (GetHTTPClient o'))
          \<and> (cs ! i = CallGetURL \<longrightarrow> rs ! i = URL (GetURL o')))"
  using run_keeps_client [OF assms(2)] New_Inr_fields [OF assms(1)]
  by (simp add: GetURL_def)


lemma New_test_env_insecure:
  "New test_env ''http://engine.example/ovirt-engine/api'' ''admin@internal'' ''x'' [] [] True [] ()
     = Inr \<lparr>o_conn = 1, o_httpClient = \<lparr>Transport = \<lparr>TLSClientConfig = tlsProfile True\<rparr>\<rparr>,
            o_logger = (), o_url = ''http://engine.example/ovirt-engine/api''\<rparr>"
  by (simp add: New_def validateURL_http_api validateUsername_admin_internal test_env_Build
      createTLSConfig_inline_good)

lemma run_test_env:
  "run test_env
     [CallGetURL, CallRemoveDisk background ''busy'', CallGetSDKClient,
      CallRemoveDisk cancelled ''locked'', CallGetHTTPClient, CallGetURL]
     (\<lparr>o_conn = 1, o_httpClient = \<lparr>Transport = \<lparr>TLSClientConfig = tlsProfile True\<rparr>\<rparr>,
       o_logger = (), o_url = ''http://engine.example/ovirt-engine/api''\<rparr>, world0)
   = Some ([URL ''http://engine.example/ovirt-engine/api'', Err None, SDKClient 1,
            Err (Some (Timeout ''locked''
                   (Some (RemoveFailed ''locked'' (External ''disk is locked''))))),
            HTTPClient \<lparr>Transport = \<lparr>TLSClientConfig = tlsProfile True\<rparr>\<rparr>,
            URL ''http://engine.example/ovirt-engine/api''],
           \<lparr>o_conn = 1, o_httpClient = \<lparr>Transport = \<lparr>TLSClientConfig = tlsProfile True\<rparr>\<rparr>,
            o_logger = (), o_url = ''http://engine.example/ovirt-engine/api''\<rparr>,
           \<lparr>sends = 4, waits = 2, slept = 10\<rparr>)"
  by (simp add: invoke_def RemoveDisk_def GetURL_def GetSDKClient_def GetHTTPClient_def
      world0_def background_def cancelled_def test_env_busy test_env_locked
      RemoveDisk_loop_retry RemoveDisk_loop_success RemoveDisk_loop_done)

theorem client_fields_never_change_witness:
  "New test_env ''http://engine.example/ovirt-engine/api'' ''admin@internal'' ''x'' [] [] True [] ()
     = Inr \<lparr>o_conn = 1, o_httpClient = \<lparr>Transport = \<lparr>TLSClientConfig = tlsProfile True\<rparr>\<rparr>,
            o_logger = (), o_url = ''http://engine.example/ovirt-engine/api''\<rparr>
   \<and> run test_env
     [CallGetURL, CallRemoveDisk background ''busy'', CallGetSDKClient,
      CallRemoveDisk cancelled ''locked'', CallGetHTTPClient, CallGetURL]
     (\<lparr>o_conn = 1, o_httpClient = \<lparr>Transport = \<lparr>TLSClientConfig = tlsProfile True\<rparr>\<rparr>,
       o_logger = (), o_url = ''http://engine.example/ovirt-engine/api''\<rparr>, world0)
   = Some ([URL ''http://engine.example/ovirt-engine/api'', Err None, SDKClient 1,
            Err (Some (Timeout ''locked''
                   (Some (RemoveFailed ''locked'' (External ''disk is locked''))))),
            HTTPClient \<lparr>Transport = \<lparr>TLSClientConfig = tlsProfile True\<rparr>\<rparr>,
            URL ''http://engine.example/ovirt-engine/api''],
           \<lparr>o_conn = 1, o_httpClient = \<lparr>Transport = \<lparr>TLSClientConfig = tlsProfile True\<rparr>\<rparr>,
            o_logger = (), o_url = ''http://engine.example/ovirt-engine/api''\<rparr>,
           \<lparr>sends = 4, waits = 2, slept = 10\<rparr>)
   \<and> GetURL \<lparr>o_conn = 1::nat, o_httpClient = \<lparr>Transport = \<lparr>TLSClientConfig = tlsProfile True\<rparr>\<rparr>,
            o_logger = (), o_url = ''http://engine.example/ovirt-engine/api''\<rparr>
       = ''http://engine.example/ovirt-engine/api''"
  using client_fields_never_change [OF New_test_env_insecure run_test_env]
    New_test_env_insecure run_test_env
  by simp


end
